theory Spec2Isabelle
  imports Main "HOL-Library.Sublist"
begin

section \<open>The package initialiser of transformer_engine\<close>

text \<open>
  The source is the body of \<^verbatim>\<open>transformer_engine/__init__.py\<close>:
  \<^verbatim>\<open>
  from importlib import metadata
  import transformer_engine.common

  try:
      from . import pytorch
  except (ImportError, FileNotFoundError):
      pass

  try:
      from . import jax
  except (ImportError, FileNotFoundError):
      pass

  __version__ = str(metadata.version("transformer_engine"))
  \<close>
  It is modelled as a sequence of statements over an explicit state. What the imported
  modules and the metadata lookup do is outside the file: their results are the fields
  of an environment.
\<close>

subsection \<open>Values and exceptions\<close>

datatype pyval = PStr string | PModule string

text \<open>
  An exception carries the method resolution order of its class, most specific class
  first (for a ModuleNotFoundError: ModuleNotFoundError, ImportError, Exception,
  BaseException), and its message. An except clause matches by subclass, that is, by
  membership in this list.
\<close>

datatype exn = Exn (exn_mro: "string list") (exn_msg: string)

definition isinstance :: "exn \<Rightarrow> string \<Rightarrow> bool" where
  "isinstance e c = (c \<in> set (exn_mro e))"

text \<open>\<^verbatim>\<open>except (C1, ..., Cn)\<close> matches an exception that is an instance of one of the classes.\<close>

definition matches :: "exn \<Rightarrow> string list \<Rightarrow> bool" where
  "matches e cs = (\<exists>c \<in> set cs. isinstance e c)"

text \<open>\<^verbatim>\<open>str(x)\<close> on what a metadata lookup returns: a string, or None when the field is missing.\<close>

fun py_str :: "string option \<Rightarrow> string" where
  "py_str (Some s) = s"
| "py_str None = ''None''"

subsection \<open>Environment, state, outcomes\<close>

text \<open>
  The environment fixes what the world outside the file does: the result of importing
  the core subpackage, of importing each backend subpackage, and of
  \<^verbatim>\<open>metadata.version(name)\<close>. \<open>Inl\<close> is a raised exception.
\<close>

record env =
  load_common :: "exn + pyval"
  load_backend :: "string \<Rightarrow> exn + pyval"
  metadata_version :: "string \<Rightarrow> exn + string option"

text \<open>An event records that a statement reaching outside the file was executed.\<close>

datatype event = CoreImport | BackendImport string | VersionLookup

text \<open>
  The state is the namespace of the module under execution and the events so far.
  It survives a raised exception: a binding made before the raise stays made.
\<close>

record pstate =
  globals :: "string \<rightharpoonup> pyval"
  history :: "event list"

datatype outcome = Done | Raised exn

type_synonym stmt = "pstate \<Rightarrow> outcome \<times> pstate"

subsection \<open>Statements\<close>

definition pass_stmt :: stmt where
  "pass_stmt st = (Done, st)"

text \<open>Two statements in sequence: the second runs only when the first does not raise.\<close>

definition seq_stmt :: "stmt \<Rightarrow> stmt \<Rightarrow> stmt" where
  "seq_stmt s1 s2 st =
     (case s1 st of
        (Done, st1) \<Rightarrow> s2 st1
      | (Raised e, st1) \<Rightarrow> (Raised e, st1))"

text \<open>
  \<^verbatim>\<open>try: body / except classes: handler\<close>. An exception of the body that matches runs
  the handler; one that does not match propagates.
\<close>

definition try_except :: "stmt \<Rightarrow> string list \<Rightarrow> stmt \<Rightarrow> stmt" where
  "try_except body classes handler st =
     (case body st of
        (Done, st1) \<Rightarrow> (Done, st1)
      | (Raised e, st1) \<Rightarrow> if matches e classes then handler st1 else (Raised e, st1))"

definition bind_name :: "string \<Rightarrow> pyval \<Rightarrow> pstate \<Rightarrow> pstate" where
  "bind_name n v st = st\<lparr>globals := (globals st)(n \<mapsto> v)\<rparr>"

definition record_event :: "event \<Rightarrow> pstate \<Rightarrow> pstate" where
  "record_event ev st = st\<lparr>history := history st @ [ev]\<rparr>"

text \<open>\<^verbatim>\<open>from importlib import metadata\<close>: a standard library module, taken to be present.\<close>

definition import_metadata :: stmt where
  "import_metadata st = (Done, bind_name ''metadata'' (PModule ''importlib.metadata'') st)"

text \<open>
  \<^verbatim>\<open>import transformer_engine.common\<close>: on success the package name is bound in the
  namespace, and the subpackage is set as the attribute \<^verbatim>\<open>common\<close> of the package,
  whose namespace this is.
\<close>

definition import_common :: "env \<Rightarrow> stmt" where
  "import_common en st =
     (let st1 = record_event CoreImport st in
      case load_common en of
        Inl e \<Rightarrow> (Raised e, st1)
      | Inr m \<Rightarrow> (Done, bind_name ''transformer_engine'' (PModule ''transformer_engine'')
                         (bind_name ''common'' m st1)))"

text \<open>\<^verbatim>\<open>from . import name\<close>: the name is bound only when the import succeeds.\<close>

definition from_import :: "env \<Rightarrow> string \<Rightarrow> stmt" where
  "from_import en name st =
     (let st1 = record_event (BackendImport name) st in
      case load_backend en name of
        Inl e \<Rightarrow> (Raised e, st1)
      | Inr m \<Rightarrow> (Done, bind_name name m st1))"

definition handled_classes :: "string list" where
  "handled_classes = [''ImportError'', ''FileNotFoundError'']"

text \<open>One of the two try statements.\<close>

definition activate_backend :: "env \<Rightarrow> string \<Rightarrow> stmt" where
  "activate_backend en name = try_except (from_import en name) handled_classes pass_stmt"

text \<open>The two try statements, in the order of the file.\<close>

definition activate_backends :: "env \<Rightarrow> stmt" where
  "activate_backends en = seq_stmt (activate_backend en ''pytorch'') (activate_backend en ''jax'')"

text \<open>\<^verbatim>\<open>__version__ = str(metadata.version("transformer_engine"))\<close>.\<close>

definition assign_version :: "env \<Rightarrow> stmt" where
  "assign_version en st =
     (let st1 = record_event VersionLookup st in
      case metadata_version en ''transformer_engine'' of
        Inl e \<Rightarrow> (Raised e, st1)
      | Inr v \<Rightarrow> (Done, bind_name ''__version__'' (PStr (py_str v)) st1))"

definition module_body :: "env \<Rightarrow> stmt" where
  "module_body en =
     seq_stmt import_metadata
       (seq_stmt (import_common en)
          (seq_stmt (activate_backends en) (assign_version en)))"

definition fresh_module :: pstate where
  "fresh_module = \<lparr>globals = Map.empty, history = []\<rparr>"

text \<open>Bootstrap is one execution of the module body in a fresh namespace.\<close>

definition bootstrap :: "env \<Rightarrow> outcome \<times> pstate" where
  "bootstrap en = module_body en fresh_module"

subsection \<open>Observations\<close>

text \<open>A backend is active when its name is bound in the package namespace.\<close>

definition backend_active :: "pstate \<Rightarrow> string \<Rightarrow> bool" where
  "backend_active st name = (globals st name \<noteq> None)"

definition tolerated :: "exn \<Rightarrow> bool" where
  "tolerated e = (isinstance e ''ImportError'' \<or> isinstance e ''FileNotFoundError'')"

text \<open>The attempt on a backend does not escape its try statement.\<close>

definition backend_ok :: "env \<Rightarrow> string \<Rightarrow> bool" where
  "backend_ok en name = (case load_backend en name of Inr m \<Rightarrow> True | Inl e \<Rightarrow> tolerated e)"

definition core_ok :: "env \<Rightarrow> bool" where
  "core_ok en = (case load_common en of Inr m \<Rightarrow> True | Inl e \<Rightarrow> False)"

definition full_history :: "event list" where
  "full_history = [CoreImport, BackendImport ''pytorch'', BackendImport ''jax'', VersionLookup]"

subsection \<open>Concrete exceptions and environments\<close>

definition runtime_error :: exn where
  "runtime_error = Exn [''RuntimeError'', ''Exception'', ''BaseException''] ''CUDA driver mismatch''"

definition os_error :: exn where
  "os_error = Exn [''OSError'', ''Exception'', ''BaseException''] ''libtransformer_engine.so''"

definition module_not_found :: exn where
  "module_not_found =
     Exn [''ModuleNotFoundError'', ''ImportError'', ''Exception'', ''BaseException'']
       ''No module named torch''"

definition file_not_found :: exn where
  "file_not_found =
     Exn [''FileNotFoundError'', ''OSError'', ''Exception'', ''BaseException'']
       ''transformer_engine_jax.so''"

definition package_not_found :: exn where
  "package_not_found =
     Exn [''PackageNotFoundError'', ''ModuleNotFoundError'', ''ImportError'', ''Exception'',
          ''BaseException''] ''transformer_engine''"

text \<open>Everything installed and healthy.\<close>

definition env_all :: env where
  "env_all =
     \<lparr>load_common = Inr (PModule ''transformer_engine.common''),
      load_backend = (\<lambda>b. Inr (PModule (''transformer_engine.'' @ b))),
      metadata_version = (\<lambda>d. Inr (Some ''2.4.0''))\<rparr>"

text \<open>The core subpackage fails to load its shared library.\<close>

definition env_nocore :: env where
  "env_nocore = env_all\<lparr>load_common := Inl os_error\<rparr>"

text \<open>A backend that is installed but broken: importing pytorch raises a RuntimeError.\<close>

definition env_broken :: env where
  "env_broken =
     env_all\<lparr>load_backend :=
       (\<lambda>b. if b = ''pytorch'' then Inl runtime_error
            else Inr (PModule (''transformer_engine.'' @ b)))\<rparr>"

text \<open>Only pytorch installed: importing jax finds no such module.\<close>

definition env_pytorch_only :: env where
  "env_pytorch_only =
     env_all\<lparr>load_backend :=
       (\<lambda>b. if b = ''pytorch'' then Inr (PModule ''transformer_engine.pytorch'')
            else Inl module_not_found)\<rparr>"

text \<open>No backend installed: torch is missing, and so is the jax extension library.\<close>

definition env_no_backends :: env where
  "env_no_backends =
     env_all\<lparr>load_backend :=
       (\<lambda>b. if b = ''pytorch'' then Inl module_not_found else Inl file_not_found)\<rparr>"

text \<open>The distribution metadata is missing.\<close>

definition env_nometa :: env where
  "env_nometa = env_all\<lparr>metadata_version := (\<lambda>d. Inl package_not_found)\<rparr>"

subsection \<open>The importing process\<close>

text \<open>
  A caller reaches the package through \<^verbatim>\<open>import transformer_engine\<close>. The interpreter
  runs the module body the first time and keeps the module in its table of loaded
  modules only when the body did not raise; a later import returns the kept module
  without running the body again. The process state is the entry of that table for the
  package (its namespace) and the events of all executions so far.
\<close>

record process =
  te_module :: "(string \<rightharpoonup> pyval) option"
  plog :: "event list"

definition fresh_process :: process where
  "fresh_process = \<lparr>te_module = None, plog = []\<rparr>"

definition import_transformer_engine :: "env \<Rightarrow> process \<Rightarrow> (exn + (string \<rightharpoonup> pyval)) \<times> process" where
  "import_transformer_engine en p =
     (case te_module p of
        Some g \<Rightarrow> (Inr g, p)
      | None \<Rightarrow>
          (case bootstrap en of
             (Done, st) \<Rightarrow>
               (Inr (globals st), \<lparr>te_module = Some (globals st), plog = plog p @ history st\<rparr>)
           | (Raised e, st) \<Rightarrow>
               (Inl e, \<lparr>te_module = None, plog = plog p @ history st\<rparr>)))"

definition attribute_error :: exn where
  "attribute_error = Exn [''AttributeError'', ''Exception'', ''BaseException''] ''__version__''"

text \<open>The version query of a caller: \<^verbatim>\<open>import transformer_engine\<close>, then read \<^verbatim>\<open>__version__\<close>.\<close>

definition version_query :: "env \<Rightarrow> process \<Rightarrow> (exn + pyval) \<times> process" where
  "version_query en p =
     (case import_transformer_engine en p of
        (Inl e, p1) \<Rightarrow> (Inl e, p1)
      | (Inr g, p1) \<Rightarrow>
          (case g ''__version__'' of
             Some v \<Rightarrow> (Inr v, p1)
           | None \<Rightarrow> (Inl attribute_error, p1)))"

text \<open>A caller that queries the version \<open>n\<close> times in a row; the results in order.\<close>

fun repeat_query :: "env \<Rightarrow> nat \<Rightarrow> process \<Rightarrow> (exn + pyval) list \<times> process" where
  "repeat_query en 0 p = ([], p)"
| "repeat_query en (Suc n) p =
     (case version_query en p of
        (r, p1) \<Rightarrow> (case repeat_query en n p1 of (rs, p2) \<Rightarrow> (r # rs, p2)))"

section \<open>Properties of the statements\<close>

lemmas stmt_defs = pass_stmt_def seq_stmt_def try_except_def bind_name_def record_event_def
  import_metadata_def import_common_def from_import_def activate_backend_def
  activate_backends_def assign_version_def module_body_def fresh_module_def bootstrap_def
  Let_def

lemmas class_defs = matches_def handled_classes_def tolerated_def isinstance_def

lemma matches_handled: "matches e handled_classes = tolerated e"
  by (simp add: matches_def handled_classes_def tolerated_def)

lemma activate_backend_success:
  "load_backend en b = Inr m \<Longrightarrow>
   activate_backend en b st = (Done, bind_name b m (record_event (BackendImport b) st))"
  by (simp add: activate_backend_def try_except_def from_import_def)

lemma activate_backend_suppressed:
  "load_backend en b = Inl e \<Longrightarrow> tolerated e \<Longrightarrow>
   activate_backend en b st = (Done, record_event (BackendImport b) st)"
  by (simp add: activate_backend_def try_except_def from_import_def pass_stmt_def
      matches_handled)

lemma activate_backend_escapes:
  "load_backend en b = Inl e \<Longrightarrow> \<not> tolerated e \<Longrightarrow>
   activate_backend en b st = (Raised e, record_event (BackendImport b) st)"
  by (simp add: activate_backend_def try_except_def from_import_def matches_handled)

section \<open>Properties of bootstrap\<close>

lemma bootstrap_history:
  "history (snd (bootstrap en)) =
     (if \<not> core_ok en then [CoreImport]
      else if \<not> backend_ok en ''pytorch'' then [CoreImport, BackendImport ''pytorch'']
      else if \<not> backend_ok en ''jax''
        then [CoreImport, BackendImport ''pytorch'', BackendImport ''jax'']
      else full_history)"
  by (auto simp: stmt_defs core_ok_def backend_ok_def full_history_def matches_handled
      split: sum.splits)

lemma bootstrap_core_raises:
  "load_common en = Inl e \<Longrightarrow> fst (bootstrap en) = Raised e"
  by (simp add: stmt_defs)

lemma bootstrap_pytorch_raises:
  "core_ok en \<Longrightarrow> load_backend en ''pytorch'' = Inl e \<Longrightarrow> \<not> tolerated e \<Longrightarrow>
   fst (bootstrap en) = Raised e"
  by (auto simp: stmt_defs core_ok_def matches_handled split: sum.splits)

lemma bootstrap_jax_raises:
  "core_ok en \<Longrightarrow> backend_ok en ''pytorch'' \<Longrightarrow> load_backend en ''jax'' = Inl e \<Longrightarrow>
   \<not> tolerated e \<Longrightarrow> fst (bootstrap en) = Raised e"
  by (auto simp: stmt_defs core_ok_def backend_ok_def matches_handled split: sum.splits)

lemma bootstrap_reaches_version:
  "core_ok en \<Longrightarrow> backend_ok en ''pytorch'' \<Longrightarrow> backend_ok en ''jax'' \<Longrightarrow>
   fst (bootstrap en) =
     (case metadata_version en ''transformer_engine'' of Inl e \<Rightarrow> Raised e | Inr v \<Rightarrow> Done)"
  by (auto simp: stmt_defs core_ok_def backend_ok_def matches_handled split: sum.splits)

lemma bootstrap_done_iff:
  "fst (bootstrap en) = Done \<longleftrightarrow>
     core_ok en \<and> backend_ok en ''pytorch'' \<and> backend_ok en ''jax'' \<and>
     (\<exists>v. metadata_version en ''transformer_engine'' = Inr v)"
  by (auto simp: stmt_defs core_ok_def backend_ok_def matches_handled split: sum.splits)

lemma pytorch_active_iff:
  "backend_active (snd (bootstrap en)) ''pytorch'' \<longleftrightarrow>
     core_ok en \<and> (\<exists>m. load_backend en ''pytorch'' = Inr m)"
  by (auto simp: stmt_defs backend_active_def core_ok_def matches_handled split: sum.splits)

lemma jax_active_iff:
  "backend_active (snd (bootstrap en)) ''jax'' \<longleftrightarrow>
     core_ok en \<and> backend_ok en ''pytorch'' \<and> (\<exists>m. load_backend en ''jax'' = Inr m)"
  by (auto simp: stmt_defs backend_active_def core_ok_def backend_ok_def matches_handled
      split: sum.splits)

lemma version_bound:
  "globals (snd (bootstrap en)) ''__version__'' =
     (if core_ok en \<and> backend_ok en ''pytorch'' \<and> backend_ok en ''jax''
      then (case metadata_version en ''transformer_engine'' of
              Inl e \<Rightarrow> None | Inr v \<Rightarrow> Some (PStr (py_str v)))
      else None)"
  by (auto simp: stmt_defs core_ok_def backend_ok_def matches_handled split: sum.splits)

lemma metadata_only_sets_version:
  "n \<noteq> ''__version__'' \<Longrightarrow>
   globals (snd (bootstrap (en\<lparr>metadata_version := f\<rparr>))) n = globals (snd (bootstrap en)) n"
  by (auto simp: stmt_defs matches_handled split: sum.splits)

lemma metadata_keeps_history:
  "history (snd (bootstrap (en\<lparr>metadata_version := f\<rparr>))) = history (snd (bootstrap en))"
  by (simp add: bootstrap_history core_ok_def backend_ok_def)

section \<open>Properties of the importing process\<close>

lemma import_cached:
  "te_module p = Some g \<Longrightarrow> import_transformer_engine en p = (Inr g, p)"
  by (simp add: import_transformer_engine_def)

lemma import_uncached_done:
  "te_module p = None \<Longrightarrow> fst (bootstrap en) = Done \<Longrightarrow>
   import_transformer_engine en p =
     (Inr (globals (snd (bootstrap en))),
      \<lparr>te_module = Some (globals (snd (bootstrap en))),
       plog = plog p @ history (snd (bootstrap en))\<rparr>)"
  by (cases "bootstrap en") (simp add: import_transformer_engine_def)

lemma import_uncached_raised:
  "te_module p = None \<Longrightarrow> fst (bootstrap en) = Raised e \<Longrightarrow>
   import_transformer_engine en p =
     (Inl e, \<lparr>te_module = None, plog = plog p @ history (snd (bootstrap en))\<rparr>)"
  by (cases "bootstrap en") (simp add: import_transformer_engine_def)

lemma query_cached:
  "te_module p = Some g \<Longrightarrow> g ''__version__'' = Some v \<Longrightarrow> version_query en p = (Inr v, p)"
  by (simp add: version_query_def import_cached)

lemma query_uncached_raised:
  "te_module p = None \<Longrightarrow> fst (bootstrap en) = Raised e \<Longrightarrow>
   version_query en p =
     (Inl e, \<lparr>te_module = None, plog = plog p @ history (snd (bootstrap en))\<rparr>)"
  by (simp add: version_query_def import_uncached_raised)

lemma query_uncached_done:
  assumes "te_module p = None" and "fst (bootstrap en) = Done"
    and "metadata_version en ''transformer_engine'' = Inr v"
  shows "version_query en p =
     (Inr (PStr (py_str v)),
      \<lparr>te_module = Some (globals (snd (bootstrap en))),
       plog = plog p @ history (snd (bootstrap en))\<rparr>)"
proof -
  from assms(2) have "core_ok en \<and> backend_ok en ''pytorch'' \<and> backend_ok en ''jax''"
    by (simp add: bootstrap_done_iff)
  then have "globals (snd (bootstrap en)) ''__version__'' = Some (PStr (py_str v))"
    using assms(3) by (simp add: version_bound)
  then show ?thesis
    using assms(1,2) by (simp add: version_query_def import_uncached_done)
qed

lemma repeat_query_cached:
  "te_module p = Some g \<Longrightarrow> g ''__version__'' = Some v \<Longrightarrow>
   repeat_query en n p = (replicate n (Inr v), p)"
  by (induction n) (simp_all add: query_cached)

lemma repeat_query_raised:
  "te_module p = None \<Longrightarrow> fst (bootstrap en) = Raised e \<Longrightarrow>
   fst (repeat_query en n p) = replicate n (Inl e)"
proof (induction n arbitrary: p)
  case 0
  then show ?case by simp
next
  case (Suc n)
  let ?p1 = "\<lparr>te_module = None, plog = plog p @ history (snd (bootstrap en))\<rparr>"
  have q: "version_query en p = (Inl e, ?p1)"
    using Suc.prems by (rule query_uncached_raised)
  have "fst (repeat_query en n ?p1) = replicate n (Inl e)"
    using Suc.prems(2) by (intro Suc.IH) simp_all
  then show ?case
    using q by (cases "repeat_query en n ?p1") simp
qed

lemma query_result_is_cached:
  "version_query en p = (Inr v, p1) \<Longrightarrow> \<exists>g. te_module p1 = Some g \<and> g ''__version__'' = Some v"
  by (cases "bootstrap en")
    (auto simp: version_query_def import_transformer_engine_def
      split: option.splits outcome.splits)

lemma repeat_query_fresh_done:
  assumes "fst (bootstrap en) = Done" and "metadata_version en ''transformer_engine'' = Inr s"
  shows "repeat_query en (Suc n) fresh_process =
    (replicate (Suc n) (Inr (PStr (py_str s))),
     \<lparr>te_module = Some (globals (snd (bootstrap en))), plog = history (snd (bootstrap en))\<rparr>)"
proof -
  let ?p1 = "\<lparr>te_module = Some (globals (snd (bootstrap en))),
              plog = history (snd (bootstrap en))\<rparr>"
  have q: "version_query en fresh_process = (Inr (PStr (py_str s)), ?p1)"
    using query_uncached_done [of fresh_process en s] assms by (simp add: fresh_process_def)
  have "core_ok en \<and> backend_ok en ''pytorch'' \<and> backend_ok en ''jax''"
    using assms(1) by (simp add: bootstrap_done_iff)
  then have g: "globals (snd (bootstrap en)) ''__version__'' = Some (PStr (py_str s))"
    using assms(2) by (simp add: version_bound)
  have "repeat_query en n ?p1 = (replicate n (Inr (PStr (py_str s))), ?p1)"
    using g repeat_query_cached [of ?p1 "globals (snd (bootstrap en))" "PStr (py_str s)" en n]
    by simp
  then show ?thesis
    using q by simp
qed

section \<open>The claims\<close>

text \<open>
  C8. Any failure during core activation, of any exception type, is fatal: whatever
  exception \<open>e\<close> the import of the core subpackage raises, bootstrap raises that same
  \<open>e\<close>, and so does the import of the package by a caller. No class is looked at and
  nothing is suppressed.
\<close>

theorem core_failure_is_fatal:
  "load_common en = Inl e \<Longrightarrow>
   fst (bootstrap en) = Raised e \<and> fst (import_transformer_engine en fresh_process) = Inl e"
  by (simp add: bootstrap_core_raises import_uncached_raised fresh_process_def)

theorem core_failure_is_fatal_witness:
  "load_common env_nocore = Inl os_error \<and> fst (bootstrap env_nocore) = Raised os_error
   \<and> fst (import_transformer_engine env_nocore fresh_process) = Inl os_error"
  using core_failure_is_fatal [of env_nocore os_error]
  by (simp add: env_nocore_def env_all_def)

text \<open>
  C3. Fail-fast ordering. If core activation fails, bootstrap raises and no backend
  import is ever executed. Conversely, whenever a backend import was executed, the core
  import had succeeded, and it is the first event of the run and happens once.
\<close>

theorem fail_fast_ordering:
  "(load_common en = Inl e \<longrightarrow>
      fst (bootstrap en) = Raised e \<and>
      (\<forall>b. BackendImport b \<notin> set (history (snd (bootstrap en))))) \<and>
   (BackendImport b \<in> set (history (snd (bootstrap en))) \<longrightarrow>
      (\<exists>m. load_common en = Inr m) \<and>
      (\<exists>rest. history (snd (bootstrap en)) = CoreImport # rest \<and> CoreImport \<notin> set rest))"
  by (auto simp: bootstrap_core_raises bootstrap_history core_ok_def full_history_def
      split: sum.splits if_splits)

theorem fail_fast_ordering_witness:
  "load_common env_nocore = Inl os_error \<and> fst (bootstrap env_nocore) = Raised os_error \<and>
   (\<forall>b. BackendImport b \<notin> set (history (snd (bootstrap env_nocore)))) \<and>
   BackendImport ''jax'' \<in> set (history (snd (bootstrap env_all))) \<and>
   (\<exists>m. load_common env_all = Inr m)"
  using fail_fast_ordering [of env_nocore os_error "''jax''"]
    fail_fast_ordering [of env_all os_error "''jax''"]
  by (simp add: env_nocore_def env_all_def bootstrap_history core_ok_def backend_ok_def
      full_history_def)

text \<open>
  C10. Bootstrap runs its steps in one fixed order: the core import, the pytorch
  attempt, the jax attempt, the version lookup. The events of every run are a prefix of
  that sequence. The version lookup is executed during bootstrap itself, exactly when the
  core import succeeded and neither backend attempt let an exception out, and then both
  backend attempts come before it and have had their effect; a bootstrap that completes
  has executed it. The lookup is the resolution of the version: when it is executed and
  the metadata lookup raises, bootstrap raises that exception and \<^verbatim>\<open>__version__\<close> stays
  unbound; when it is executed and the metadata lookup returns, bootstrap completes with
  \<^verbatim>\<open>__version__\<close> bound to the string of what was returned; when it is not executed,
  \<^verbatim>\<open>__version__\<close> is unbound.
\<close>

theorem fixed_statement_order:
  "prefix (history (snd (bootstrap en)))
     [CoreImport, BackendImport ''pytorch'', BackendImport ''jax'', VersionLookup] \<and>
   (VersionLookup \<in> set (history (snd (bootstrap en))) \<longleftrightarrow>
      core_ok en \<and> backend_ok en ''pytorch'' \<and> backend_ok en ''jax'') \<and>
   (VersionLookup \<in> set (history (snd (bootstrap en))) \<longrightarrow>
      history (snd (bootstrap en)) =
        [CoreImport, BackendImport ''pytorch'', BackendImport ''jax'', VersionLookup]) \<and>
   (fst (bootstrap en) = Done \<longrightarrow> VersionLookup \<in> set (history (snd (bootstrap en)))) \<and>
   (\<forall>e. VersionLookup \<in> set (history (snd (bootstrap en))) \<and>
        metadata_version en ''transformer_engine'' = Inl e \<longrightarrow>
        fst (bootstrap en) = Raised e \<and> globals (snd (bootstrap en)) ''__version__'' = None) \<and>
   (\<forall>v. VersionLookup \<in> set (history (snd (bootstrap en))) \<and>
        metadata_version en ''transformer_engine'' = Inr v \<longrightarrow>
        fst (bootstrap en) = Done \<and>
        globals (snd (bootstrap en)) ''__version__'' = Some (PStr (py_str v))) \<and>
   (VersionLookup \<notin> set (history (snd (bootstrap en))) \<longrightarrow>
      globals (snd (bootstrap en)) ''__version__'' = None) \<and>
   (fst (bootstrap en) = Done \<longrightarrow>
      (\<exists>v. metadata_version en ''transformer_engine'' = Inr v \<and>
           globals (snd (bootstrap en)) ''__version__'' = Some (PStr (py_str v)))) \<and>
   (VersionLookup \<in> set (history (snd (bootstrap en))) \<longrightarrow>
      (backend_active (snd (bootstrap en)) ''pytorch'' \<longleftrightarrow>
         (\<exists>m. load_backend en ''pytorch'' = Inr m)) \<and>
      (backend_active (snd (bootstrap en)) ''jax'' \<longleftrightarrow>
         (\<exists>m. load_backend en ''jax'' = Inr m)))"
proof -
  let ?H = "history (snd (bootstrap en))"
  let ?reached = "core_ok en \<and> backend_ok en ''pytorch'' \<and> backend_ok en ''jax''"
  have order: "prefix ?H
      [CoreImport, BackendImport ''pytorch'', BackendImport ''jax'', VersionLookup]"
    by (simp add: bootstrap_history full_history_def)
  have reached: "VersionLookup \<in> set ?H \<longleftrightarrow> ?reached"
    by (simp add: bootstrap_history full_history_def)
  have full: "VersionLookup \<in> set ?H \<longrightarrow>
      ?H = [CoreImport, BackendImport ''pytorch'', BackendImport ''jax'', VersionLookup]"
    by (simp add: bootstrap_history full_history_def)
  have done_reached: "fst (bootstrap en) = Done \<longrightarrow> VersionLookup \<in> set ?H"
    using reached by (simp add: bootstrap_done_iff)
  have raises: "\<forall>e. VersionLookup \<in> set ?H \<and>
      metadata_version en ''transformer_engine'' = Inl e \<longrightarrow>
      fst (bootstrap en) = Raised e \<and> globals (snd (bootstrap en)) ''__version__'' = None"
    using reached bootstrap_reaches_version [of en] by (simp add: version_bound)
  have binds: "\<forall>v. VersionLookup \<in> set ?H \<and>
      metadata_version en ''transformer_engine'' = Inr v \<longrightarrow>
      fst (bootstrap en) = Done \<and>
      globals (snd (bootstrap en)) ''__version__'' = Some (PStr (py_str v))"
    using reached bootstrap_reaches_version [of en] by (simp add: version_bound)
  have unbound: "VersionLookup \<notin> set ?H \<longrightarrow>
      globals (snd (bootstrap en)) ''__version__'' = None"
    using reached by (simp add: version_bound)
  have done_bound: "fst (bootstrap en) = Done \<longrightarrow>
      (\<exists>v. metadata_version en ''transformer_engine'' = Inr v \<and>
           globals (snd (bootstrap en)) ''__version__'' = Some (PStr (py_str v)))"
    by (auto simp: bootstrap_done_iff version_bound)
  have backends: "VersionLookup \<in> set ?H \<longrightarrow>
      (backend_active (snd (bootstrap en)) ''pytorch'' \<longleftrightarrow>
         (\<exists>m. load_backend en ''pytorch'' = Inr m)) \<and>
      (backend_active (snd (bootstrap en)) ''jax'' \<longleftrightarrow>
         (\<exists>m. load_backend en ''jax'' = Inr m))"
    using reached by (simp add: pytorch_active_iff jax_active_iff)
  show ?thesis
    using order reached full done_reached raises binds unbound done_bound backends
    by blast
qed

theorem fixed_statement_order_witness:
  "history (snd (bootstrap env_nometa)) =
     [CoreImport, BackendImport ''pytorch'', BackendImport ''jax'', VersionLookup] \<and>
   metadata_version env_nometa ''transformer_engine'' = Inl package_not_found \<and>
   fst (bootstrap env_nometa) = Raised package_not_found \<and>
   globals (snd (bootstrap env_nometa)) ''__version__'' = None \<and>
   history (snd (bootstrap env_all)) =
     [CoreImport, BackendImport ''pytorch'', BackendImport ''jax'', VersionLookup] \<and>
   metadata_version env_all ''transformer_engine'' = Inr (Some ''2.4.0'') \<and>
   fst (bootstrap env_all) = Done \<and>
   globals (snd (bootstrap env_all)) ''__version__'' = Some (PStr ''2.4.0'') \<and>
   backend_active (snd (bootstrap env_all)) ''pytorch'' \<and>
   prefix (history (snd (bootstrap env_broken)))
     [CoreImport, BackendImport ''pytorch'', BackendImport ''jax'', VersionLookup] \<and>
   VersionLookup \<notin> set (history (snd (bootstrap env_broken))) \<and>
   globals (snd (bootstrap env_broken)) ''__version__'' = None"
proof -
  have rn: "core_ok env_nometa \<and> backend_ok env_nometa ''pytorch'' \<and> backend_ok env_nometa ''jax''"
    by (simp add: core_ok_def backend_ok_def env_nometa_def env_all_def)
  have mn: "metadata_version env_nometa ''transformer_engine'' = Inl package_not_found"
    by (simp add: env_nometa_def env_all_def)
  have ra: "core_ok env_all \<and> backend_ok env_all ''pytorch'' \<and> backend_ok env_all ''jax''"
    by (simp add: core_ok_def backend_ok_def env_all_def)
  have ma: "metadata_version env_all ''transformer_engine'' = Inr (Some ''2.4.0'')"
    by (simp add: env_all_def)
  have la: "\<exists>m. load_backend env_all ''pytorch'' = Inr m"
    by (simp add: env_all_def)
  have rb: "\<not> backend_ok env_broken ''pytorch''"
    by (simp add: backend_ok_def env_broken_def env_all_def class_defs runtime_error_def)
  note n = fixed_statement_order [of env_nometa]
  note a = fixed_statement_order [of env_all]
  note b = fixed_statement_order [of env_broken]
  have n1: "history (snd (bootstrap env_nometa)) =
      [CoreImport, BackendImport ''pytorch'', BackendImport ''jax'', VersionLookup]"
    and n2: "fst (bootstrap env_nometa) = Raised package_not_found"
    and n3: "globals (snd (bootstrap env_nometa)) ''__version__'' = None"
    using n rn mn by blast+
  have a1: "history (snd (bootstrap env_all)) =
      [CoreImport, BackendImport ''pytorch'', BackendImport ''jax'', VersionLookup]"
    and a2: "fst (bootstrap env_all) = Done"
    and a3: "globals (snd (bootstrap env_all)) ''__version__'' = Some (PStr (py_str (Some ''2.4.0'')))"
    and a4: "backend_active (snd (bootstrap env_all)) ''pytorch''"
    using a ra ma la by blast+
  have b1: "prefix (history (snd (bootstrap env_broken)))
      [CoreImport, BackendImport ''pytorch'', BackendImport ''jax'', VersionLookup]"
    and b2: "VersionLookup \<notin> set (history (snd (bootstrap env_broken)))"
    and b3: "globals (snd (bootstrap env_broken)) ''__version__'' = None"
    using b rb by blast+
  show ?thesis
    using n1 mn n2 n3 a1 ma a2 a3 a4 b1 b2 b3 by simp
qed

text \<open>
  C5. The handler of each try statement matches exactly the instances of ImportError and
  of FileNotFoundError (subclasses included, as an except clause matches). An exception
  a backend import raises is suppressed by its try statement when it is such an
  instance, and leaves the try statement unchanged when it is not; in the second case
  it aborts bootstrap, which raises it.
\<close>

theorem handler_matches_two_classes:
  "load_backend en b = Inl e \<Longrightarrow>
   fst (activate_backend en b st) =
     (if isinstance e ''ImportError'' \<or> isinstance e ''FileNotFoundError''
      then Done else Raised e) \<and>
   (\<not> (isinstance e ''ImportError'' \<or> isinstance e ''FileNotFoundError'') \<and> core_ok en \<and>
    (b = ''pytorch'' \<or> b = ''jax'' \<and> backend_ok en ''pytorch'')
      \<longrightarrow> fst (bootstrap en) = Raised e)"
  using activate_backend_suppressed [of en b e st] activate_backend_escapes [of en b e st]
    bootstrap_pytorch_raises [of en e] bootstrap_jax_raises [of en e]
  by (auto simp: tolerated_def)

theorem handler_matches_two_classes_witness:
  "load_backend env_no_backends ''jax'' = Inl file_not_found \<and>
   fst (activate_backend env_no_backends ''jax'' fresh_module) = Done \<and>
   load_backend env_no_backends ''pytorch'' = Inl module_not_found \<and>
   fst (activate_backend env_no_backends ''pytorch'' fresh_module) = Done \<and>
   load_backend env_broken ''pytorch'' = Inl runtime_error \<and>
   fst (activate_backend env_broken ''pytorch'' fresh_module) = Raised runtime_error \<and>
   fst (bootstrap env_broken) = Raised runtime_error"
  using handler_matches_two_classes [of env_no_backends "''jax''" file_not_found fresh_module]
    handler_matches_two_classes [of env_no_backends "''pytorch''" module_not_found fresh_module]
    handler_matches_two_classes [of env_broken "''pytorch''" runtime_error fresh_module]
  by (simp add: env_no_backends_def env_broken_def env_all_def core_ok_def isinstance_def
      runtime_error_def file_not_found_def module_not_found_def)

text \<open>
  C6. A backend whose supporting artifact is not installed fails to import with an
  instance of ImportError (no such module) or of FileNotFoundError (no such library
  file). Its try statement then suppresses the failure: no exception leaves the try
  statement, the attempt is recorded, the namespace is left as it was, so the backend is
  inactive after bootstrap, and after the pytorch attempt the jax attempt follows.
\<close>

theorem absent_backend_is_suppressed:
  "load_backend en b = Inl e \<Longrightarrow> tolerated e \<Longrightarrow>
   activate_backend en b st = (Done, st\<lparr>history := history st @ [BackendImport b]\<rparr>) \<and>
   (b = ''pytorch'' \<or> b = ''jax'' \<longrightarrow> \<not> backend_active (snd (bootstrap en)) b) \<and>
   (b = ''pytorch'' \<and> core_ok en \<longrightarrow> BackendImport ''jax'' \<in> set (history (snd (bootstrap en))))"
  using activate_backend_suppressed [of en b e st]
  by (auto simp: record_event_def pytorch_active_iff jax_active_iff bootstrap_history
      backend_ok_def full_history_def)

theorem absent_backend_is_suppressed_witness:
  "load_backend env_no_backends ''pytorch'' = Inl module_not_found \<and>
   tolerated module_not_found \<and>
   activate_backend env_no_backends ''pytorch'' fresh_module =
     (Done, fresh_module\<lparr>history := history fresh_module @ [BackendImport ''pytorch'']\<rparr>) \<and>
   \<not> backend_active (snd (bootstrap env_no_backends)) ''pytorch'' \<and>
   BackendImport ''jax'' \<in> set (history (snd (bootstrap env_no_backends)))"
  using absent_backend_is_suppressed [of env_no_backends "''pytorch''" module_not_found fresh_module]
  by (simp add: env_no_backends_def env_all_def core_ok_def class_defs module_not_found_def)

text \<open>
  C1, as stated, fails: with the core healthy and the metadata present, a pytorch
  backend whose initialisation raises a RuntimeError makes bootstrap raise that
  RuntimeError, and the import of the package fails with it.
\<close>

theorem broken_backend_counterexample:
  "load_common env_broken = Inr (PModule ''transformer_engine.common'') \<and>
   load_backend env_broken ''pytorch'' = Inl runtime_error \<and>
   fst (bootstrap env_broken) = Raised runtime_error \<and>
   fst (import_transformer_engine env_broken fresh_process) = Inl runtime_error"
proof -
  have c: "core_ok env_broken"
    by (simp add: core_ok_def env_broken_def env_all_def)
  have l: "load_backend env_broken ''pytorch'' = Inl runtime_error"
    by (simp add: env_broken_def env_all_def)
  have n: "\<not> tolerated runtime_error"
    by (simp add: class_defs runtime_error_def)
  have b: "fst (bootstrap env_broken) = Raised runtime_error"
    using c l n by (rule bootstrap_pytorch_raises)
  show ?thesis
    using l b by (simp add: import_uncached_raised fresh_process_def)
      (simp add: env_broken_def env_all_def)
qed

text \<open>
  C1, amended. For every exception raised during an optional backend's activation that
  is an instance of ImportError or of FileNotFoundError, the exception is suppressed and
  bootstrap still completes, when the core import succeeds, no backend attempt lets an
  exception out and the version lookup returns: the backend was attempted, is left
  inactive, and the process starts.
\<close>

theorem tolerated_failure_is_suppressed:
  assumes "core_ok en" and "b = ''pytorch'' \<or> b = ''jax''"
    and "load_backend en b = Inl e"
    and "isinstance e ''ImportError'' \<or> isinstance e ''FileNotFoundError''"
    and "backend_ok en ''pytorch''" and "backend_ok en ''jax''"
    and "metadata_version en ''transformer_engine'' = Inr v"
  shows "fst (bootstrap en) = Done \<and> \<not> backend_active (snd (bootstrap en)) b \<and>
    BackendImport b \<in> set (history (snd (bootstrap en)))"
  using assms
  by (auto simp: bootstrap_done_iff pytorch_active_iff jax_active_iff bootstrap_history
      full_history_def)

theorem tolerated_failure_is_suppressed_witness:
  "core_ok env_pytorch_only \<and> load_backend env_pytorch_only ''jax'' = Inl module_not_found \<and>
   isinstance module_not_found ''ImportError'' \<and>
   backend_ok env_pytorch_only ''pytorch'' \<and> backend_ok env_pytorch_only ''jax'' \<and>
   metadata_version env_pytorch_only ''transformer_engine'' = Inr (Some ''2.4.0'') \<and>
   fst (bootstrap env_pytorch_only) = Done \<and>
   \<not> backend_active (snd (bootstrap env_pytorch_only)) ''jax'' \<and>
   BackendImport ''jax'' \<in> set (history (snd (bootstrap env_pytorch_only)))"
  using tolerated_failure_is_suppressed
    [of env_pytorch_only "''jax''" module_not_found "Some ''2.4.0''"]
  by (simp add: env_pytorch_only_def env_all_def core_ok_def backend_ok_def class_defs
      module_not_found_def)

text \<open>
  C2, as stated, fails: with the core and both backends healthy and the distribution
  metadata missing, the lookup's PackageNotFoundError leaves the module body, so
  bootstrap raises and the import of the package fails: the failure is fatal to startup.
\<close>

theorem missing_metadata_counterexample:
  "load_common env_nometa = Inr (PModule ''transformer_engine.common'') \<and>
   load_backend env_nometa ''pytorch'' = Inr (PModule ''transformer_engine.pytorch'') \<and>
   load_backend env_nometa ''jax'' = Inr (PModule ''transformer_engine.jax'') \<and>
   metadata_version env_nometa ''transformer_engine'' = Inl package_not_found \<and>
   fst (bootstrap env_nometa) = Raised package_not_found \<and>
   fst (import_transformer_engine env_nometa fresh_process) = Inl package_not_found"
proof -
  have ok: "core_ok env_nometa" "backend_ok env_nometa ''pytorch''" "backend_ok env_nometa ''jax''"
    by (simp_all add: core_ok_def backend_ok_def env_nometa_def env_all_def)
  have b: "fst (bootstrap env_nometa) = Raised package_not_found"
    using bootstrap_reaches_version [OF ok] by (simp add: env_nometa_def env_all_def)
  show ?thesis
    using b by (simp add: import_uncached_raised fresh_process_def)
      (simp add: env_nometa_def env_all_def)
qed

text \<open>
  C2, amended. If the version lookup raises, its exception is raised by bootstrap
  unchanged and the import of the package fails with it: the package is not kept as
  loaded and \<^verbatim>\<open>__version__\<close> is never bound. The core import and both backend attempts
  have run before the lookup, and they are unaffected by the metadata: whatever the
  lookup does, the events of the run and every binding other than \<^verbatim>\<open>__version__\<close>
  are the same.
\<close>

theorem missing_metadata_aborts_bootstrap:
  assumes "metadata_version en ''transformer_engine'' = Inl e"
    and "core_ok en" and "backend_ok en ''pytorch''" and "backend_ok en ''jax''"
  shows "fst (bootstrap en) = Raised e \<and>
    fst (import_transformer_engine en fresh_process) = Inl e \<and>
    te_module (snd (import_transformer_engine en fresh_process)) = None \<and>
    globals (snd (bootstrap en)) ''__version__'' = None \<and>
    history (snd (bootstrap en)) =
      [CoreImport, BackendImport ''pytorch'', BackendImport ''jax'', VersionLookup] \<and>
    (\<forall>f. history (snd (bootstrap (en\<lparr>metadata_version := f\<rparr>))) = history (snd (bootstrap en)) \<and>
         (\<forall>n. n \<noteq> ''__version__'' \<longrightarrow>
            globals (snd (bootstrap (en\<lparr>metadata_version := f\<rparr>))) n =
            globals (snd (bootstrap en)) n))"
proof -
  have b: "fst (bootstrap en) = Raised e"
    using bootstrap_reaches_version [OF assms(2-4)] assms(1) by simp
  have i: "import_transformer_engine en fresh_process =
      (Inl e, \<lparr>te_module = None, plog = plog fresh_process @ history (snd (bootstrap en))\<rparr>)"
    using b by (intro import_uncached_raised) (simp_all add: fresh_process_def)
  have h: "history (snd (bootstrap en)) =
      [CoreImport, BackendImport ''pytorch'', BackendImport ''jax'', VersionLookup]"
    using assms(2-4) by (simp add: bootstrap_history full_history_def)
  have g: "globals (snd (bootstrap en)) ''__version__'' = None"
    using assms by (simp add: version_bound)
  show ?thesis
    using b i h g by (simp add: metadata_only_sets_version metadata_keeps_history)
qed



theorem missing_metadata_aborts_bootstrap_witness:
  "metadata_version env_nometa ''transformer_engine'' = Inl package_not_found \<and>
   core_ok env_nometa \<and> backend_ok env_nometa ''pytorch'' \<and> backend_ok env_nometa ''jax'' \<and>
   fst (bootstrap env_nometa) = Raised package_not_found \<and>
   globals (snd (bootstrap env_nometa)) ''__version__'' = None \<and>
   globals (snd (bootstrap (env_nometa\<lparr>metadata_version := (\<lambda>d. Inr (Some ''2.4.0''))\<rparr>))) ''jax'' =
     globals (snd (bootstrap env_nometa)) ''jax''"
proof -
  have m: "metadata_version env_nometa ''transformer_engine'' = Inl package_not_found"
    by (simp add: env_nometa_def env_all_def)
  have c: "core_ok env_nometa"
    by (simp add: core_ok_def env_nometa_def env_all_def)
  have p: "backend_ok env_nometa ''pytorch''" and j: "backend_ok env_nometa ''jax''"
    by (simp_all add: backend_ok_def env_nometa_def env_all_def)
  note r = missing_metadata_aborts_bootstrap [OF m c p j]
  from r have "\<forall>n. n \<noteq> ''__version__'' \<longrightarrow>
      globals (snd (bootstrap (env_nometa\<lparr>metadata_version := (\<lambda>d. Inr (Some ''2.4.0''))\<rparr>))) n =
      globals (snd (bootstrap env_nometa)) n"
    by blast
  then have g: "globals (snd (bootstrap (env_nometa\<lparr>metadata_version := (\<lambda>d. Inr (Some ''2.4.0''))\<rparr>))) ''jax'' =
      globals (snd (bootstrap env_nometa)) ''jax''"
    by simp
  from r have b: "fst (bootstrap env_nometa) = Raised package_not_found"
    and v: "globals (snd (bootstrap env_nometa)) ''__version__'' = None"
    by blast+
  show ?thesis
    using m c p j b v g by blast
qed

text \<open>
  C4. For every subset \<open>S\<close> of the backends pytorch and jax that are installed and
  healthy (their import succeeds), the others being not installed (their import raises
  an instance of ImportError or of FileNotFoundError), and with the core and the
  distribution metadata in place, bootstrap completes without raising, exactly the
  backends of \<open>S\<close> are active afterwards, and the version is bound.
\<close>

theorem installed_backends_become_active:
  assumes "core_ok en"
    and "\<forall>b \<in> {''pytorch'', ''jax''}. b \<in> S \<longrightarrow> (\<exists>m. load_backend en b = Inr m)"
    and "\<forall>b \<in> {''pytorch'', ''jax''}. b \<notin> S \<longrightarrow> (\<exists>e. load_backend en b = Inl e \<and> tolerated e)"
    and "metadata_version en ''transformer_engine'' = Inr v"
  shows "fst (bootstrap en) = Done \<and>
    (\<forall>b \<in> {''pytorch'', ''jax''}. backend_active (snd (bootstrap en)) b \<longleftrightarrow> b \<in> S) \<and>
    globals (snd (bootstrap en)) ''__version__'' = Some (PStr (py_str v))"
proof -
  have p: "backend_ok en ''pytorch''" and j: "backend_ok en ''jax''"
    using assms(2,3) by (auto simp: backend_ok_def split: sum.splits)
  have d: "fst (bootstrap en) = Done"
    using assms(1,4) p j by (simp add: bootstrap_done_iff)
  have ap: "backend_active (snd (bootstrap en)) ''pytorch'' \<longleftrightarrow> ''pytorch'' \<in> S"
    using assms(1-3) by (auto simp: pytorch_active_iff)
  have aj: "backend_active (snd (bootstrap en)) ''jax'' \<longleftrightarrow> ''jax'' \<in> S"
    using assms(1-3) p by (auto simp: jax_active_iff)
  show ?thesis
    using d ap aj assms(1,4) p j by (simp add: version_bound)
qed

theorem installed_backends_become_active_witness:
  "core_ok env_pytorch_only \<and>
   load_backend env_pytorch_only ''pytorch'' = Inr (PModule ''transformer_engine.pytorch'') \<and>
   load_backend env_pytorch_only ''jax'' = Inl module_not_found \<and>
   tolerated module_not_found \<and>
   metadata_version env_pytorch_only ''transformer_engine'' = Inr (Some ''2.4.0'') \<and>
   fst (bootstrap env_pytorch_only) = Done \<and>
   backend_active (snd (bootstrap env_pytorch_only)) ''pytorch'' \<and>
   \<not> backend_active (snd (bootstrap env_pytorch_only)) ''jax'' \<and>
   globals (snd (bootstrap env_pytorch_only)) ''__version__'' = Some (PStr ''2.4.0'')"
proof -
  have t: "tolerated module_not_found"
    by (simp add: class_defs module_not_found_def)
  have c: "core_ok env_pytorch_only"
    by (simp add: core_ok_def env_pytorch_only_def env_all_def)
  have i: "\<forall>b \<in> {''pytorch'', ''jax''}. b \<in> {''pytorch''} \<longrightarrow>
      (\<exists>m. load_backend env_pytorch_only b = Inr m)"
    by (simp add: env_pytorch_only_def env_all_def)
  have a: "\<forall>b \<in> {''pytorch'', ''jax''}. b \<notin> {''pytorch''} \<longrightarrow>
      (\<exists>e. load_backend env_pytorch_only b = Inl e \<and> tolerated e)"
    using t by (simp add: env_pytorch_only_def env_all_def)
  have v: "metadata_version env_pytorch_only ''transformer_engine'' = Inr (Some ''2.4.0'')"
    by (simp add: env_pytorch_only_def env_all_def)
  note r = installed_backends_become_active [OF c i a v]
  from r have d: "fst (bootstrap env_pytorch_only) = Done"
    and g: "globals (snd (bootstrap env_pytorch_only)) ''__version__'' = Some (PStr ''2.4.0'')"
    by simp_all
  from r have ap: "backend_active (snd (bootstrap env_pytorch_only)) ''pytorch''"
    and aj: "\<not> backend_active (snd (bootstrap env_pytorch_only)) ''jax''"
    by simp_all
  have lp: "load_backend env_pytorch_only ''pytorch'' = Inr (PModule ''transformer_engine.pytorch'')"
    and lj: "load_backend env_pytorch_only ''jax'' = Inl module_not_found"
    by (simp_all add: env_pytorch_only_def env_all_def)
  show ?thesis
    using c lp lj t v d g ap aj by blast
qed

text \<open>
  C7. Version resolution is idempotent. A version query is what a caller does: import
  the package, read \<^verbatim>\<open>__version__\<close>. A query that returned a value is followed by a
  query returning the same value and changing nothing; one run of the module body looks
  the version up at most once; with the core and the backend attempts in order and the
  metadata present, any number of consecutive queries from a fresh process all return
  the one string, and the whole process has looked the version up once; with the
  metadata missing, every one of any number of consecutive queries fails with the
  exception of the lookup.
\<close>

theorem version_resolved_once:
  "(version_query en p = (Inr v, p1) \<longrightarrow> version_query en p1 = (Inr v, p1)) \<and>
   count_list (history (snd (bootstrap en))) VersionLookup \<le> 1 \<and>
   (core_ok en \<and> backend_ok en ''pytorch'' \<and> backend_ok en ''jax'' \<longrightarrow>
      (\<forall>s. metadata_version en ''transformer_engine'' = Inr s \<longrightarrow>
         (\<forall>n. repeat_query en (Suc n) fresh_process =
            (replicate (Suc n) (Inr (PStr (py_str s))),
             \<lparr>te_module = Some (globals (snd (bootstrap en))),
              plog = [CoreImport, BackendImport ''pytorch'', BackendImport ''jax'',
                      VersionLookup]\<rparr>))) \<and>
      (\<forall>e. metadata_version en ''transformer_engine'' = Inl e \<longrightarrow>
         (\<forall>n. fst (repeat_query en n fresh_process) = replicate n (Inl e))))"
proof (intro conjI impI allI)
  assume "version_query en p = (Inr v, p1)"
  then obtain g where "te_module p1 = Some g" and "g ''__version__'' = Some v"
    using query_result_is_cached by blast
  then show "version_query en p1 = (Inr v, p1)"
    by (rule query_cached)
next
  show "count_list (history (snd (bootstrap en))) VersionLookup \<le> 1"
    by (simp add: bootstrap_history full_history_def)
next
  fix s n
  assume ok: "core_ok en \<and> backend_ok en ''pytorch'' \<and> backend_ok en ''jax''"
    and m: "metadata_version en ''transformer_engine'' = Inr s"
  then have d: "fst (bootstrap en) = Done"
    by (simp add: bootstrap_done_iff)
  have h: "history (snd (bootstrap en)) =
      [CoreImport, BackendImport ''pytorch'', BackendImport ''jax'', VersionLookup]"
    using ok by (simp add: bootstrap_history full_history_def)
  show "repeat_query en (Suc n) fresh_process =
      (replicate (Suc n) (Inr (PStr (py_str s))),
       \<lparr>te_module = Some (globals (snd (bootstrap en))),
        plog = [CoreImport, BackendImport ''pytorch'', BackendImport ''jax'',
                VersionLookup]\<rparr>)"
    using repeat_query_fresh_done [OF d m, of n] h by simp
next
  fix e n
  assume ok: "core_ok en \<and> backend_ok en ''pytorch'' \<and> backend_ok en ''jax''"
    and m: "metadata_version en ''transformer_engine'' = Inl e"
  have "fst (bootstrap en) = Raised e"
    using bootstrap_reaches_version [of en] ok m by simp
  then show "fst (repeat_query en n fresh_process) = replicate n (Inl e)"
    by (intro repeat_query_raised) (simp_all add: fresh_process_def)
qed

theorem version_resolved_once_witness:
  "core_ok env_all \<and> backend_ok env_all ''pytorch'' \<and> backend_ok env_all ''jax'' \<and>
   metadata_version env_all ''transformer_engine'' = Inr (Some ''2.4.0'') \<and>
   fst (repeat_query env_all 2 fresh_process) = [Inr (PStr ''2.4.0''), Inr (PStr ''2.4.0'')] \<and>
   plog (snd (repeat_query env_all 2 fresh_process)) =
     [CoreImport, BackendImport ''pytorch'', BackendImport ''jax'', VersionLookup] \<and>
   core_ok env_nometa \<and> backend_ok env_nometa ''pytorch'' \<and> backend_ok env_nometa ''jax'' \<and>
   metadata_version env_nometa ''transformer_engine'' = Inl package_not_found \<and>
   fst (repeat_query env_nometa 2 fresh_process) = [Inl package_not_found, Inl package_not_found]"
proof -
  have a: "core_ok env_all \<and> backend_ok env_all ''pytorch'' \<and> backend_ok env_all ''jax''"
    by (simp add: core_ok_def backend_ok_def env_all_def)
  have am: "metadata_version env_all ''transformer_engine'' = Inr (Some ''2.4.0'')"
    by (simp add: env_all_def)
  have b: "core_ok env_nometa \<and> backend_ok env_nometa ''pytorch'' \<and> backend_ok env_nometa ''jax''"
    by (simp add: core_ok_def backend_ok_def env_nometa_def env_all_def)
  have bm: "metadata_version env_nometa ''transformer_engine'' = Inl package_not_found"
    by (simp add: env_nometa_def env_all_def)
  have two: "(2::nat) = Suc (Suc 0)"
    by simp
  note ra = version_resolved_once [of env_all fresh_process "PStr ''2.4.0''" fresh_process]
  note rb = version_resolved_once [of env_nometa fresh_process "PStr ''2.4.0''" fresh_process]
  from ra a am have "repeat_query env_all (Suc (Suc 0)) fresh_process =
      (replicate (Suc (Suc 0)) (Inr (PStr (py_str (Some ''2.4.0'')))),
       \<lparr>te_module = Some (globals (snd (bootstrap env_all))),
        plog = [CoreImport, BackendImport ''pytorch'', BackendImport ''jax'',
                VersionLookup]\<rparr>)"
    by blast
  then have qa: "fst (repeat_query env_all 2 fresh_process) =
      [Inr (PStr ''2.4.0''), Inr (PStr ''2.4.0'')]"
    and la: "plog (snd (repeat_query env_all 2 fresh_process)) =
      [CoreImport, BackendImport ''pytorch'', BackendImport ''jax'', VersionLookup]"
    unfolding two by simp_all
  from rb b bm have "fst (repeat_query env_nometa (Suc (Suc 0)) fresh_process) =
      replicate (Suc (Suc 0)) (Inl package_not_found)"
    by blast
  then have qb: "fst (repeat_query env_nometa 2 fresh_process) =
      [Inl package_not_found, Inl package_not_found]"
    unfolding two by simp
  show ?thesis
    using a am b bm qa la qb by blast
qed

text \<open>
  C9, as stated, fails: when the pytorch import raises a RuntimeError, which its handler
  does not match, the jax import is never executed.
\<close>

theorem skipped_jax_counterexample:
  "load_common env_broken = Inr (PModule ''transformer_engine.common'') \<and>
   load_backend env_broken ''pytorch'' = Inl runtime_error \<and>
   count_list (history (snd (bootstrap env_broken))) (BackendImport ''jax'') = 0"
proof -
  have c: "core_ok env_broken"
    by (simp add: core_ok_def env_broken_def env_all_def)
  have n: "\<not> backend_ok env_broken ''pytorch''"
    by (simp add: backend_ok_def env_broken_def env_all_def class_defs runtime_error_def)
  have "history (snd (bootstrap env_broken)) = [CoreImport, BackendImport ''pytorch'']"
    using c n by (simp add: bootstrap_history)
  then show ?thesis
    by (simp add: env_broken_def env_all_def)
qed

text \<open>
  C9, amended. When the core import succeeds, the pytorch backend is attempted exactly
  once and its outcome depends on its own import only. The jax backend is attempted
  exactly once, with the same semantics (active exactly when its own import succeeds),
  whether the pytorch import succeeded or failed with an instance of ImportError or of
  FileNotFoundError; when the pytorch import raises any other exception, jax is not
  attempted. No backend is ever attempted more than once.
\<close>

theorem backend_attempts_once:
  assumes "core_ok en"
  shows "count_list (history (snd (bootstrap en))) (BackendImport ''pytorch'') = 1 \<and>
    (backend_active (snd (bootstrap en)) ''pytorch'' \<longleftrightarrow>
       (\<exists>m. load_backend en ''pytorch'' = Inr m)) \<and>
    (backend_ok en ''pytorch'' \<longrightarrow>
       count_list (history (snd (bootstrap en))) (BackendImport ''jax'') = 1 \<and>
       (backend_active (snd (bootstrap en)) ''jax'' \<longleftrightarrow>
          (\<exists>m. load_backend en ''jax'' = Inr m))) \<and>
    (\<not> backend_ok en ''pytorch'' \<longrightarrow>
       count_list (history (snd (bootstrap en))) (BackendImport ''jax'') = 0) \<and>
    (\<forall>b. count_list (history (snd (bootstrap en))) (BackendImport b) \<le> 1)"
  using assms
  by (simp add: bootstrap_history full_history_def pytorch_active_iff jax_active_iff)

theorem backend_attempts_once_witness:
  "core_ok env_no_backends \<and> backend_ok env_no_backends ''pytorch'' \<and>
   count_list (history (snd (bootstrap env_no_backends))) (BackendImport ''pytorch'') = 1 \<and>
   count_list (history (snd (bootstrap env_no_backends))) (BackendImport ''jax'') = 1 \<and>
   \<not> backend_active (snd (bootstrap env_no_backends)) ''jax''"
proof -
  have c: "core_ok env_no_backends"
    by (simp add: core_ok_def env_no_backends_def env_all_def)
  have p: "backend_ok env_no_backends ''pytorch''"
    by (simp add: backend_ok_def env_no_backends_def env_all_def class_defs module_not_found_def)
  have j: "\<not> (\<exists>m. load_backend env_no_backends ''jax'' = Inr m)"
    by (simp add: env_no_backends_def env_all_def)
  show ?thesis
    using c p j backend_attempts_once [OF c] by blast
qed

end
